theory Spec2Isabelle
  imports Main "HOL-Library.Sublist" "HOL-Library.AList" "HOL-Library.Char_ord"
    "HOL-Library.List_Lexorder"
begin

section \<open>Python strings\<close>

text \<open>
  A Python \<open>str\<close> is modelled as a \<open>string\<close>; each \<open>char\<close> stands for
  one code point in the range U+0000..U+00FF. Code points above that range are outside the
  model. The substring test \<open>sub in s\<close> is \<open>sublist sub s\<close>, and
  \<open>s.startswith(p)\<close> is \<open>prefix p s\<close>.
\<close>

definition ord :: "char \<Rightarrow> nat" where
  "ord c = of_char c"

text \<open>\<open>str.isspace\<close> on one code point below 256.\<close>

definition isspace :: "char \<Rightarrow> bool" where
  "isspace c = (let n = ord c in
     (9 \<le> n \<and> n \<le> 13) \<or> (28 \<le> n \<and> n \<le> 32) \<or> n = 133 \<or> n = 160)"

text \<open>\<open>s.strip(chars)\<close> with the stripped characters given as a predicate.\<close>

definition lstrip :: "(char \<Rightarrow> bool) \<Rightarrow> string \<Rightarrow> string" where
  "lstrip P s = dropWhile P s"

definition rstrip :: "(char \<Rightarrow> bool) \<Rightarrow> string \<Rightarrow> string" where
  "rstrip P s = rev (dropWhile P (rev s))"

definition strip_chars :: "(char \<Rightarrow> bool) \<Rightarrow> string \<Rightarrow> string" where
  "strip_chars P s = lstrip P (rstrip P s)"

text \<open>\<open>s.strip()\<close>: whitespace removed at both ends.\<close>

definition strip :: "string \<Rightarrow> string" where
  "strip s = strip_chars isspace s"

text \<open>\<open>str.lower\<close> on one code point below 256: A-Z and the Latin-1 capitals.\<close>

definition lower_char :: "char \<Rightarrow> char" where
  "lower_char c = (let n = ord c in
     if (65 \<le> n \<and> n \<le> 90) \<or> (192 \<le> n \<and> n \<le> 222 \<and> n \<noteq> 215)
     then char_of (n + 32) else c)"

definition lower :: "string \<Rightarrow> string" where
  "lower s = map lower_char s"

text \<open>\<open>sep.join(xs)\<close>.\<close>

fun join :: "string \<Rightarrow> string list \<Rightarrow> string" where
  "join sep [] = []"
| "join sep [x] = x"
| "join sep (x # y # ys) = x @ sep @ join sep (y # ys)"

text \<open>\<open>str(n)\<close> for a natural number.\<close>

definition digit_char :: "nat \<Rightarrow> char" where
  "digit_char d = ''0123456789'' ! d"

fun str_nat :: "nat \<Rightarrow> string" where
  "str_nat n = (if n < 10 then [digit_char n] else str_nat (n div 10) @ [digit_char (n mod 10)])"

declare str_nat.simps [simp del]

section \<open>Submission names and model identifiers\<close>

text \<open>The character classes of the two regular expressions in \<open>generate_submission_name\<close>.\<close>

definition is_lower_alnum :: "char \<Rightarrow> bool" where
  "is_lower_alnum c = (let n = ord c in (97 \<le> n \<and> n \<le> 122) \<or> (48 \<le> n \<and> n \<le> 57))"

definition is_hyphen :: "char \<Rightarrow> bool" where
  "is_hyphen c = (c = CHR ''-'')"

text \<open>\<open>re.sub(r'[^a-z0-9-]', '-', s)\<close>: every character outside the class becomes a hyphen.\<close>

definition sub_non_slug :: "string \<Rightarrow> string" where
  "sub_non_slug s = map (\<lambda>c. if is_lower_alnum c \<or> is_hyphen c then c else CHR ''-'') s"

text \<open>\<open>re.sub(r'-+', '-', s)\<close>: every maximal run of hyphens becomes one hyphen.\<close>

function sub_hyphen_runs :: "string \<Rightarrow> string" where
  "sub_hyphen_runs [] = []"
| "sub_hyphen_runs (c # cs) =
     (if is_hyphen c then CHR ''-'' # sub_hyphen_runs (dropWhile is_hyphen cs)
      else c # sub_hyphen_runs cs)"
  by pat_completeness auto
termination
  by (relation "measure length") (auto simp: length_dropWhile_le less_Suc_eq_le)

text \<open>
  \<open>generate_submission_name(model_name)\<close>. The argument is \<open>None\<close> when \<open>--name\<close> is
  absent; \<open>t\<close> is the value of \<open>int(time.time())\<close>. The test \<open>if model_name:\<close> is
  false for \<open>None\<close> and for the empty string.
\<close>

definition generate_submission_name :: "string option \<Rightarrow> nat \<Rightarrow> string" where
  "generate_submission_name model_name t =
     (case model_name of
        None \<Rightarrow> ''submission-'' @ str_nat t
      | Some mn \<Rightarrow>
          if mn \<noteq> [] then strip_chars is_hyphen (sub_hyphen_runs (sub_non_slug (lower mn)))
          else ''submission-'' @ str_nat t)"

text \<open>\<open>generate_model_id()\<close> at time \<open>t\<close>.\<close>

definition generate_model_id :: "nat \<Rightarrow> string" where
  "generate_model_id t = str_nat (12315 + t mod 10000)"

section \<open>Parsed documents\<close>

text \<open>
  The values that \<open>json.load\<close> and \<open>yaml.safe_load\<close> return. A Python dict is an
  association list in insertion order; \<open>map_of\<close> is the lookup. Floating-point numbers are
  not modelled.
\<close>

datatype json =
    JNull
  | JBool bool
  | JNum int
  | JStr string
  | JList "json list"
  | JDict "(string \<times> json) list"

text \<open>The exceptions the program can raise; \<open>Inl\<close> of a sum is a raised exception.\<close>

datatype error =
    JSONDecodeError
  | YAMLError
  | AttributeError
  | TypeError
  | KeyError
  | FileNotFoundError
  | FileExistsError
  | NotADirectoryError
  | IsADirectoryError

text \<open>\<open>for x in v\<close>: the elements a Python \<open>for\<close> loop visits.\<close>

definition py_iter :: "json \<Rightarrow> error + json list" where
  "py_iter v =
     (case v of
        JList xs \<Rightarrow> Inr xs
      | JDict kvs \<Rightarrow> Inr (map (\<lambda>kv. JStr (fst kv)) kvs)
      | JStr s \<Rightarrow> Inr (map (\<lambda>c. JStr [c]) s)
      | _ \<Rightarrow> Inl TypeError)"

text \<open>\<open>v.get(k)\<close> and \<open>v.get(k, d)\<close>: only a dict has the method.\<close>

definition py_get :: "json \<Rightarrow> string \<Rightarrow> json \<Rightarrow> error + json" where
  "py_get v k d =
     (case v of
        JDict kvs \<Rightarrow> (case map_of kvs k of None \<Rightarrow> Inr d | Some x \<Rightarrow> Inr x)
      | _ \<Rightarrow> Inl AttributeError)"

text \<open>\<open>v[k]\<close> with a string key.\<close>

definition py_getitem :: "json \<Rightarrow> string \<Rightarrow> error + json" where
  "py_getitem v k =
     (case v of
        JDict kvs \<Rightarrow> (case map_of kvs k of None \<Rightarrow> Inl KeyError | Some x \<Rightarrow> Inr x)
      | _ \<Rightarrow> Inl TypeError)"

section \<open>Extractor\<close>

text \<open>\<open>''.join(source)\<close> for a list \<open>source\<close>: every element must be a string.\<close>

fun join_source :: "json list \<Rightarrow> error + string" where
  "join_source [] = Inr []"
| "join_source (JStr s # xs) =
     (case join_source xs of Inl e \<Rightarrow> Inl e | Inr r \<Rightarrow> Inr (s @ r))"
| "join_source (_ # xs) = Inl TypeError"

text \<open>
  The code of one cell, lines 59 to 63 and the call \<open>code.strip()\<close> of line 70, which
  raises unless \<open>code\<close> is a string.
\<close>

definition cell_code :: "json \<Rightarrow> error + string" where
  "cell_code cell =
     (case py_get cell ''source'' (JList []) of
        Inl e \<Rightarrow> Inl e
      | Inr (JList xs) \<Rightarrow> join_source xs
      | Inr (JStr s) \<Rightarrow> Inr s
      | Inr _ \<Rightarrow> Inl AttributeError)"

text \<open>The condition of lines 71 to 76 under which a cell is skipped.\<close>

definition skipped :: "string \<Rightarrow> bool" where
  "skipped code =
     (let stripped = strip code in
        stripped = [] \<or>
        prefix ''%'' stripped \<or>
        prefix ''!'' stripped \<or>
        sublist ''test_model_locally'' code \<or>
        sublist ''pip install'' code \<or>
        sublist ''# Test'' code)"

text \<open>The loop over the cells, with the list \<open>code_cells\<close> built so far.\<close>

fun extract_cells :: "json list \<Rightarrow> string list \<Rightarrow> error + string list" where
  "extract_cells [] code_cells = Inr code_cells"
| "extract_cells (cell # cells) code_cells =
     (case py_get cell ''cell_type'' JNull of
        Inl e \<Rightarrow> Inl e
      | Inr ty \<Rightarrow>
          if ty = JStr ''code'' then
            (case cell_code cell of
               Inl e \<Rightarrow> Inl e
             | Inr code \<Rightarrow>
                 if skipped code then extract_cells cells code_cells
                 else extract_cells cells (code_cells @ [code]))
          else extract_cells cells code_cells)"

text \<open>
  \<open>extract_model_code_from_notebook\<close> after the file has been opened: \<open>parsed\<close> is
  the result of \<open>json.load\<close> on its text, \<open>None\<close> when that text is not valid JSON.
\<close>

definition extract_model_code :: "json option \<Rightarrow> error + string" where
  "extract_model_code parsed =
     (case parsed of
        None \<Rightarrow> Inl JSONDecodeError
      | Some notebook \<Rightarrow>
          (case py_get notebook ''cells'' (JList []) of
             Inl e \<Rightarrow> Inl e
           | Inr cs \<Rightarrow>
               (case py_iter cs of
                  Inl e \<Rightarrow> Inl e
                | Inr cells \<Rightarrow>
                    (case extract_cells cells [] of
                       Inl e \<Rightarrow> Inl e
                     | Inr code_cells \<Rightarrow> Inr (join ''\<newline>\<newline>'' code_cells)))))"

section \<open>Filesystem, clock and external commands\<close>

text \<open>
  A path is its list of components, resolved against the directory of the script
  (\<open>Path(__file__).parent\<close>). The filesystem maps a path to what is there. The
  empty path is that directory itself.
\<close>

type_synonym path = "string list"

datatype node = Dir | File string

type_synonym filesystem = "path \<Rightarrow> node option"

definition SUBMISSION_BASE :: path where
  "SUBMISSION_BASE = [''deployment'', ''model-orchestrator-local'', ''data'', ''submissions'']"

definition MODELS_CONFIG :: path where
  "MODELS_CONFIG = [''deployment'', ''model-orchestrator-local'', ''config'', ''models.dev.yml'']"

definition BTCVOL_SOURCE :: path where
  "BTCVOL_SOURCE = SUBMISSION_BASE @ [''model-1'', ''btcvol'']"

text \<open>
  \<open>base / name\<close> for a name without a separator: joining the empty string gives the
  base path back.
\<close>

definition path_join :: "path \<Rightarrow> string \<Rightarrow> path" where
  "path_join base name = (if name = [] then base else base @ [name])"

text \<open>
  \<open>Path.suffix\<close>: with \<open>i\<close> the index of the last dot of the final component, the
  suffix is the text from \<open>i\<close> on when \<open>0 < i < len(name) - 1\<close>, and empty otherwise.
\<close>

definition name_suffix :: "string \<Rightarrow> string" where
  "name_suffix name =
     (let r = takeWhile (\<lambda>c. c \<noteq> CHR ''.'') (rev name)
      in if r \<noteq> [] \<and> length r + 1 < length name then CHR ''.'' # rev r else [])"

definition path_suffix :: "path \<Rightarrow> string" where
  "path_suffix p = (if p = [] then [] else name_suffix (last p))"

definition path_exists :: "filesystem \<Rightarrow> path \<Rightarrow> bool" where
  "path_exists f p = (f p \<noteq> None)"

definition read_text :: "filesystem \<Rightarrow> path \<Rightarrow> error + string" where
  "read_text f p =
     (case f p of
        None \<Rightarrow> Inl FileNotFoundError
      | Some Dir \<Rightarrow> Inl IsADirectoryError
      | Some (File s) \<Rightarrow> Inr s)"

definition write_text :: "filesystem \<Rightarrow> path \<Rightarrow> string \<Rightarrow> error + filesystem" where
  "write_text f p s =
     (case f p of
        Some Dir \<Rightarrow> Inl IsADirectoryError
      | _ \<Rightarrow>
          (case f (butlast p) of
             None \<Rightarrow> Inl FileNotFoundError
           | Some (File _) \<Rightarrow> Inl NotADirectoryError
           | Some Dir \<Rightarrow> Inr (f(p \<mapsto> File s))))"

text \<open>\<open>shutil.rmtree(d)\<close>: the directory and everything below it disappears.\<close>

definition rmtree :: "filesystem \<Rightarrow> path \<Rightarrow> error + filesystem" where
  "rmtree f d =
     (case f d of
        None \<Rightarrow> Inl FileNotFoundError
      | Some (File _) \<Rightarrow> Inl NotADirectoryError
      | Some Dir \<Rightarrow> Inr (\<lambda>p. if prefix d p then None else f p))"

text \<open>
  \<open>d.mkdir(parents=True, exist_ok=True)\<close>: \<open>seen\<close> is the part of the path already
  known to be a directory, the second path the components still to visit.
\<close>

fun mkdirs :: "filesystem \<Rightarrow> path \<Rightarrow> path \<Rightarrow> error + filesystem" where
  "mkdirs f seen [] = Inr f"
| "mkdirs f seen (c # rest) =
     (case f (seen @ [c]) of
        Some (File _) \<Rightarrow> Inl (if rest = [] then FileExistsError else NotADirectoryError)
      | Some Dir \<Rightarrow> mkdirs f (seen @ [c]) rest
      | None \<Rightarrow> mkdirs (f(seen @ [c] \<mapsto> Dir)) (seen @ [c]) rest)"

definition mkdir_parents :: "filesystem \<Rightarrow> path \<Rightarrow> error + filesystem" where
  "mkdir_parents f d = mkdirs f [] d"

text \<open>
  \<open>shutil.copytree(src, dst)\<close> where the parent of \<open>dst\<close> exists: \<open>dst\<close> must not
  exist, and afterwards holds a copy of everything at and below \<open>src\<close>.
\<close>

definition copytree :: "filesystem \<Rightarrow> path \<Rightarrow> path \<Rightarrow> error + filesystem" where
  "copytree f src dst =
     (case f src of
        None \<Rightarrow> Inl FileNotFoundError
      | Some (File _) \<Rightarrow> Inl NotADirectoryError
      | Some Dir \<Rightarrow>
          if f dst \<noteq> None then Inl FileExistsError
          else Inr (\<lambda>p. if prefix dst p then f (src @ drop (length dst) p) else f p))"

text \<open>
  What \<open>subprocess.run\<close> finds: the command ran for some time and ended with a return
  code, its standard output and its standard error, or it could not be run or its output
  could not be decoded, which raises.
\<close>

datatype completed = Completed nat int string string | CannotRun

text \<open>
  What the program does to the outside besides the filesystem: the external commands it
  runs, each with what it found, and the waits it makes, in order.
\<close>

datatype event = Run "string list" completed | Sleep nat

text \<open>
  The state the program runs in: the filesystem, the clock (\<open>time.time()\<close>, in whole
  time units) and the events so far. Printing is not modelled.
\<close>

record world =
  fs :: filesystem
  now :: nat
  events :: "event list"

text \<open>
  The parts of the outside that the program calls and does not define: the two parsers, the
  serialiser, and the outcome of each of the two container commands when started at a given
  time. The parsers return \<open>None\<close> where they raise.
\<close>

record env =
  json_load :: "string \<Rightarrow> json option"
  yaml_safe_load :: "string \<Rightarrow> json option"
  yaml_dump :: "json \<Rightarrow> string"
  docker_restart :: "nat \<Rightarrow> completed"
  docker_logs :: "nat \<Rightarrow> completed"

definition sleep :: "nat \<Rightarrow> world \<Rightarrow> world" where
  "sleep n w = w\<lparr>now := now w + n, events := events w @ [Sleep n]\<rparr>"

section \<open>Validator\<close>

definition validate_model_file :: "filesystem \<Rightarrow> path \<Rightarrow> error + bool \<times> string" where
  "validate_model_file f model_path =
     (if \<not> path_exists f model_path then
        Inr (False, ''Model file not found: '' @ join ''/'' model_path)
      else if path_suffix model_path \<notin> set [''.py'', ''.ipynb''] then
        Inr (False, ''Model file must be .py or .ipynb, got: '' @ path_suffix model_path)
      else
        (case read_text f model_path of
           Inl e \<Rightarrow> Inl e
         | Inr content \<Rightarrow>
             if \<not> sublist ''Tracker'' content \<or> \<not> sublist ''predict'' content then
               Inr (False, ''Model file must contain a Tracker class with predict() method'')
             else Inr (True, ''Valid'')))"

section \<open>Structure Builder\<close>

text \<open>\<open>s.replace(old, new)\<close> for a non-empty \<open>old\<close>: occurrences are replaced from the left.\<close>

function replace :: "string \<Rightarrow> string \<Rightarrow> string \<Rightarrow> string" where
  "replace old new [] = []"
| "replace old new (c # cs) =
     (if old \<noteq> [] \<and> prefix old (c # cs)
      then new @ replace old new (drop (length old - 1) cs)
      else c # replace old new cs)"
  by pat_completeness auto
termination
  by (relation "measure (\<lambda>(old, new, s). length s)") auto

text \<open>\<open>s.split('\n')\<close>, for any separator character.\<close>

function split_on :: "char \<Rightarrow> string \<Rightarrow> string list" where
  "split_on sep s =
     (case dropWhile (\<lambda>c. c \<noteq> sep) s of
        [] \<Rightarrow> [s]
      | _ # rest \<Rightarrow> takeWhile (\<lambda>c. c \<noteq> sep) s # split_on sep rest)"
  by pat_completeness auto
termination
proof (relation "measure (\<lambda>(sep, s). length s)")
  show "wf (measure (\<lambda>(sep, s). length s))"
    by simp
next
  fix sep :: char and s :: string and x rest
  assume "dropWhile (\<lambda>c. c \<noteq> sep) s = x # rest"
  then have "length (x # rest) \<le> length s"
    by (metis length_dropWhile_le)
  then show "((sep, rest), (sep, s)) \<in> measure (\<lambda>(sep, s). length s)"
    by simp
qed

declare split_on.simps [simp del]

text \<open>The test of line 148 on one line.\<close>

definition is_main_guard :: "string \<Rightarrow> bool" where
  "is_main_guard line = prefix ''if __name__'' (strip line)"

text \<open>
  Lines 129 to 153: the import repair, the added imports, and the cut at the first line
  that starts the entry-point block.
\<close>

definition prepare_code :: "string \<Rightarrow> string" where
  "prepare_code code0 =
     (let code1 =
            (if \<not> sublist ''from btcvol.tracker import TrackerBase'' code0
             then replace ''from btcvol import TrackerBase''
                    ''from btcvol.tracker import TrackerBase'' code0
             else code0);
          required_imports =
            (if sublist ''TrackerBase'' code1 \<and>
                \<not> sublist ''from btcvol.tracker import TrackerBase'' code1
             then [''from btcvol.tracker import TrackerBase''] else []) @
            (if sublist ''np.'' code1 \<and> \<not> sublist ''import numpy as np'' code1
             then [''import numpy as np''] else []);
          code2 =
            (if required_imports \<noteq> []
             then join ''\<newline>'' required_imports @ ''\<newline>\<newline>\<newline>'' @ code1
             else code1);
          lines = split_on CHR ''\<newline>'' code2
      in if list_ex is_main_guard lines
         then join ''\<newline>'' (takeWhile (\<lambda>l. \<not> is_main_guard l) lines)
         else code2)"

text \<open>The dictionary \<open>import_patterns\<close>, in its own order.\<close>

definition import_patterns :: "(string \<times> string) list" where
  "import_patterns =
     [(''numpy'', ''numpy>=1.24.0''),
      (''pandas'', ''pandas>=2.0.0''),
      (''scipy'', ''scipy>=1.10.0''),
      (''sklearn'', ''scikit-learn>=1.3.0'')]"

text \<open>
  The loop of lines 171 to 173; the set \<open>deps\<close> is a list without repetition, and
  \<open>deps.add\<close> is \<open>List.insert\<close>.
\<close>

fun collect_deps :: "(string \<times> string) list \<Rightarrow> string \<Rightarrow> string list \<Rightarrow> string list" where
  "collect_deps [] code deps = deps"
| "collect_deps ((pkg, req) # rest) code deps =
     (if sublist (''import '' @ pkg) code
      then collect_deps rest code (List.insert req deps)
      else collect_deps rest code deps)"

text \<open>Lines 170 to 178: the lines of the manifest, and its text.\<close>

definition requirements_lines :: "string \<Rightarrow> string list" where
  "requirements_lines code =
     (let deps = collect_deps import_patterns code [];
          deps' = (if deps = [] then List.insert ''numpy>=1.24.0'' deps else deps)
      in sort deps')"

definition requirements_text :: "string \<Rightarrow> string" where
  "requirements_text code = join ''\<newline>'' (requirements_lines code) @ ''\<newline>''"

text \<open>
  Lines 123 to 127: the code of the model file. For a notebook the file is opened and
  parsed first.
\<close>

definition load_code :: "env \<Rightarrow> filesystem \<Rightarrow> path \<Rightarrow> error + string" where
  "load_code e f model_path =
     (if path_suffix model_path = ''.ipynb'' then
        (case read_text f model_path of
           Inl err \<Rightarrow> Inl err
         | Inr text \<Rightarrow> extract_model_code (json_load e text))
      else read_text f model_path)"

text \<open>
  \<open>create_submission_structure\<close>. Each step that raises ends the function there, with the
  filesystem as the steps before it left it.
\<close>

definition create_submission_structure ::
    "env \<Rightarrow> path \<Rightarrow> string \<Rightarrow> world \<Rightarrow> (error + path) \<times> world" where
  "create_submission_structure e model_path submission_name w =
     (let submission_dir = path_join SUBMISSION_BASE submission_name in
      case (if path_exists (fs w) submission_dir then rmtree (fs w) submission_dir
            else Inr (fs w)) of
        Inl err \<Rightarrow> (Inl err, w)
      | Inr f1 \<Rightarrow>
          (case mkdir_parents f1 submission_dir of
             Inl err \<Rightarrow> (Inl err, w\<lparr>fs := f1\<rparr>)
           | Inr f2 \<Rightarrow>
               if \<not> path_exists f2 BTCVOL_SOURCE then (Inl FileNotFoundError, w\<lparr>fs := f2\<rparr>)
               else
                 (case copytree f2 BTCVOL_SOURCE (submission_dir @ [''btcvol'']) of
                    Inl err \<Rightarrow> (Inl err, w\<lparr>fs := f2\<rparr>)
                  | Inr f3 \<Rightarrow>
                      (case load_code e f3 model_path of
                         Inl err \<Rightarrow> (Inl err, w\<lparr>fs := f3\<rparr>)
                       | Inr code0 \<Rightarrow>
                           (let code = prepare_code code0 in
                            case write_text f3 (submission_dir @ [''main.py'']) code of
                              Inl err \<Rightarrow> (Inl err, w\<lparr>fs := f3\<rparr>)
                            | Inr f4 \<Rightarrow>
                                (case write_text f4 (submission_dir @ [''requirements.txt''])
                                        (requirements_text code) of
                                   Inl err \<Rightarrow> (Inl err, w\<lparr>fs := f4\<rparr>)
                                 | Inr f5 \<Rightarrow> (Inr submission_dir, w\<lparr>fs := f5\<rparr>)))))))"

section \<open>Config Updater\<close>

text \<open>The list comprehension of line 191: \<open>[m['id'] for m in models]\<close>.\<close>

fun collect_ids :: "json list \<Rightarrow> error + json list" where
  "collect_ids [] = Inr []"
| "collect_ids (m # ms) =
     (case py_getitem m ''id'' of
        Inl e \<Rightarrow> Inl e
      | Inr i \<Rightarrow> (case collect_ids ms of Inl e \<Rightarrow> Inl e | Inr r \<Rightarrow> Inr (i # r)))"

text \<open>
  The loop of lines 194 to 199: the first record whose id is the model id gets the two
  fields assigned, and the loop stops there. An assignment \<open>d[k] = v\<close> is
  \<open>AList.update k v\<close>: the value is replaced where the key is, and the pair is added at the
  end where it is not.
\<close>

fun update_first :: "string \<Rightarrow> string \<Rightarrow> json list \<Rightarrow> error + json list" where
  "update_first submission_name model_id [] = Inr []"
| "update_first submission_name model_id (m # ms) =
     (case py_getitem m ''id'' of
        Inl e \<Rightarrow> Inl e
      | Inr i \<Rightarrow>
          if i = JStr model_id then
            (case m of
               JDict kvs \<Rightarrow>
                 Inr (JDict (AList.update ''desired_state'' (JStr ''RUNNING'')
                              (AList.update ''submission_id'' (JStr submission_name) kvs)) # ms)
             | _ \<Rightarrow> Inl TypeError)
          else
            (case update_first submission_name model_id ms of
               Inl e \<Rightarrow> Inl e
             | Inr ms' \<Rightarrow> Inr (m # ms')))"

text \<open>The record of lines 202 to 209.\<close>

definition new_model :: "string \<Rightarrow> string \<Rightarrow> json" where
  "new_model submission_name model_id =
     JDict [(''id'', JStr model_id),
            (''name'', JStr submission_name),
            (''submission_id'', JStr submission_name),
            (''crunch_id'', JStr ''btcvol''),
            (''desired_state'', JStr ''RUNNING''),
            (''cruncher_id'', JStr ''test_1'')]"

text \<open>
  Lines 191 to 215 on the loaded document. Records are values here: the document is taken
  to hold no two references to one record object.
\<close>

definition update_models_doc :: "string \<Rightarrow> string \<Rightarrow> json \<Rightarrow> error + json" where
  "update_models_doc submission_name model_id config =
     (case py_get config ''models'' (JList []) of
        Inl e \<Rightarrow> Inl e
      | Inr ms \<Rightarrow>
          (case py_iter ms of
             Inl e \<Rightarrow> Inl e
           | Inr models \<Rightarrow>
               (case collect_ids models of
                  Inl e \<Rightarrow> Inl e
                | Inr existing_ids \<Rightarrow>
                    (case config of
                       JDict kvs \<Rightarrow>
                         if JStr model_id \<in> set existing_ids then
                           (case ms of
                              JList recs \<Rightarrow>
                                (case update_first submission_name model_id recs of
                                   Inl e \<Rightarrow> Inl e
                                 | Inr recs' \<Rightarrow>
                                     Inr (JDict (AList.update ''models'' (JList recs') kvs)))
                            | _ \<Rightarrow> Inl TypeError)
                         else
                           (case map_of kvs ''models'' of
                              None \<Rightarrow>
                                Inr (JDict (AList.update ''models''
                                       (JList [new_model submission_name model_id]) kvs))
                            | Some (JList recs) \<Rightarrow>
                                Inr (JDict (AList.update ''models''
                                       (JList (recs @ [new_model submission_name model_id])) kvs))
                            | Some _ \<Rightarrow> Inl AttributeError)
                     | _ \<Rightarrow> Inl AttributeError))))"

text \<open>
  \<open>update_models_config\<close>: the file is read and parsed, the document updated and written
  back; every exception is caught and makes the result \<open>False\<close>.
\<close>

definition update_models_config :: "env \<Rightarrow> string \<Rightarrow> string \<Rightarrow> world \<Rightarrow> bool \<times> world" where
  "update_models_config e submission_name model_id w =
     (case read_text (fs w) MODELS_CONFIG of
        Inl err \<Rightarrow> (False, w)
      | Inr text \<Rightarrow>
          (case yaml_safe_load e text of
             None \<Rightarrow> (False, w)
           | Some config \<Rightarrow>
               (case update_models_doc submission_name model_id config of
                  Inl err \<Rightarrow> (False, w)
                | Inr config' \<Rightarrow>
                    (case write_text (fs w) MODELS_CONFIG (yaml_dump e config') of
                       Inl err \<Rightarrow> (False, w)
                     | Inr f' \<Rightarrow> (True, w\<lparr>fs := f'\<rparr>)))))"

section \<open>Deployment Trigger\<close>

definition restart_command :: "string list" where
  "restart_command = [''docker'', ''restart'', ''dvol-model-orchestrator-local'']"

text \<open>
  \<open>trigger_deployment\<close>: with \<open>check=True\<close> a return code other than 0 raises
  \<open>CalledProcessError\<close>, the one exception caught here; a command that cannot be run
  raises past the function.
\<close>

definition trigger_deployment :: "env \<Rightarrow> world \<Rightarrow> (error + bool) \<times> world" where
  "trigger_deployment e w =
     (let w1 = w\<lparr>events := events w @ [Run restart_command (docker_restart e (now w))]\<rparr> in
      case docker_restart e (now w) of
        CannotRun \<Rightarrow> (Inl FileNotFoundError, w1)
      | Completed d rc out err \<Rightarrow>
          (let w2 = w1\<lparr>now := now w1 + d\<rparr> in
           if rc \<noteq> 0 then (Inr False, w2) else (Inr True, sleep 5 w2)))"

section \<open>Status Poller\<close>

definition logs_command :: "string list" where
  "logs_command = [''docker'', ''logs'', ''dvol-model-orchestrator-local'', ''--tail'', ''100'']"

text \<open>
  The loop of \<open>check_deployment_status\<close>, entered at its test; \<open>start_time\<close> is the
  clock when the function was called. An exception inside the loop is caught by the handler
  of the function, which returns \<open>UNKNOWN\<close>.
\<close>

function poll :: "env \<Rightarrow> string \<Rightarrow> int \<Rightarrow> nat \<Rightarrow> world \<Rightarrow> string \<times> world" where
  "poll e model_id max_wait start_time w =
     (if int (now w) - int start_time < max_wait then
        (let w1 = w\<lparr>events := events w @ [Run logs_command (docker_logs e (now w))]\<rparr> in
         case docker_logs e (now w) of
           CannotRun \<Rightarrow> (''UNKNOWN'', w1)
         | Completed d rc out err \<Rightarrow>
             (let w2 = w1\<lparr>now := now w1 + d\<rparr>;
                  logs = out @ err
              in if sublist (''Model '' @ model_id @ '' is RUNNING'') logs then (''RUNNING'', w2)
                 else if sublist (''Model '' @ model_id) logs \<and> sublist ''FAILED'' logs
                 then (''FAILED'', w2)
                 else poll e model_id max_wait start_time (sleep 3 w2)))
      else (''UNKNOWN'', w))"
  by pat_completeness auto
termination
  by (relation "measure (\<lambda>(e, model_id, max_wait, start_time, w).
        nat (max_wait - (int (now w) - int start_time)))")
     (auto simp: sleep_def)

declare poll.simps [simp del]

definition check_deployment_status :: "env \<Rightarrow> string \<Rightarrow> int \<Rightarrow> world \<Rightarrow> string \<times> world" where
  "check_deployment_status e model_id max_wait w = poll e model_id max_wait (now w) w"

section \<open>The command line\<close>

record args =
  model_file :: path
  name :: "string option"
  no_deploy :: bool

text \<open>The body of the \<open>try\<close> statement of \<open>main\<close>, lines 331 to 368.\<close>

definition main_try ::
    "env \<Rightarrow> args \<Rightarrow> string \<Rightarrow> string \<Rightarrow> world \<Rightarrow> (error + int) \<times> world" where
  "main_try e a submission_name model_id w =
     (case create_submission_structure e (model_file a) submission_name w of
        (Inl err, w1) \<Rightarrow> (Inl err, w1)
      | (Inr submission_dir, w1) \<Rightarrow>
          (case update_models_config e submission_name model_id w1 of
             (ok, w2) \<Rightarrow>
               if \<not> ok then (Inr 1, w2)
               else if no_deploy a then (Inr 0, w2)
               else
                 (case trigger_deployment e w2 of
                    (Inl err, w3) \<Rightarrow> (Inl err, w3)
                  | (Inr deployed, w3) \<Rightarrow>
                      if \<not> deployed then (Inr 1, w3)
                      else
                        (case check_deployment_status e model_id 60 w3 of
                           (status, w4) \<Rightarrow>
                             (Inr (if status = ''RUNNING'' then 0 else 1), w4)))))"

text \<open>
  \<open>main\<close> after the arguments are parsed. The validator runs outside the \<open>try\<close>
  statement, so an exception it raises leaves \<open>main\<close>; one raised inside is caught and
  makes the result 1.
\<close>

definition main :: "env \<Rightarrow> args \<Rightarrow> world \<Rightarrow> (error + int) \<times> world" where
  "main e a w =
     (case validate_model_file (fs w) (model_file a) of
        Inl err \<Rightarrow> (Inl err, w)
      | Inr (valid, message) \<Rightarrow>
          if \<not> valid then (Inr 1, w)
          else
            (let submission_name = generate_submission_name (name a) (now w);
                 model_id = generate_model_id (now w)
             in case main_try e a submission_name model_id w of
                  (Inl err, w') \<Rightarrow> (Inr 1, w')
                | (Inr code, w') \<Rightarrow> (Inr code, w')))"

text \<open>
  \<open>sys.exit(main())\<close>: the exit code of the process is the value \<open>main\<close> returns, and 1
  when an exception leaves \<open>main\<close>.
\<close>

definition exit_code :: "env \<Rightarrow> args \<Rightarrow> world \<Rightarrow> int" where
  "exit_code e a w = (case fst (main e a w) of Inl err \<Rightarrow> 1 | Inr code \<Rightarrow> code)"

section \<open>The properties in the specification's words\<close>

subsection \<open>Slug\<close>

text \<open>
  The name with every run of characters outside \<open>[a-z0-9]\<close> collapsed to a single
  hyphen.
\<close>

function slug_collapse :: "string \<Rightarrow> string" where
  "slug_collapse [] = []"
| "slug_collapse (c # cs) =
     (if is_lower_alnum c then c # slug_collapse cs
      else CHR ''-'' # slug_collapse (dropWhile (\<lambda>c. \<not> is_lower_alnum c) cs))"
  by pat_completeness auto
termination
  by (relation "measure length") (auto simp: length_dropWhile_le less_Suc_eq_le)

text \<open>Lowercased, runs collapsed, leading and trailing hyphens trimmed.\<close>

definition slug_spec :: "string \<Rightarrow> string" where
  "slug_spec model_name = strip_chars is_hyphen (slug_collapse (lower model_name))"

subsection \<open>Extractor\<close>

fun is_jstr :: "json \<Rightarrow> bool" where
  "is_jstr (JStr s) = True"
| "is_jstr _ = False"

fun the_str :: "json \<Rightarrow> string" where
  "the_str (JStr s) = s"
| "the_str _ = []"

text \<open>A cell of code type.\<close>

definition is_code_cell :: "json \<Rightarrow> bool" where
  "is_code_cell cell =
     (case cell of JDict kvs \<Rightarrow> map_of kvs ''cell_type'' = Some (JStr ''code'') | _ \<Rightarrow> False)"

text \<open>The joined source of a cell: empty when the cell has no source.\<close>

definition joined_source :: "json \<Rightarrow> string" where
  "joined_source cell =
     (case cell of
        JDict kvs \<Rightarrow>
          (case map_of kvs ''source'' of
             Some (JStr s) \<Rightarrow> s
           | Some (JList xs) \<Rightarrow> concat (map the_str xs)
           | _ \<Rightarrow> [])
      | _ \<Rightarrow> [])"

text \<open>
  A cell as a notebook has it: a dict, whose source, when the cell is of code type and has
  one, is a string or a list of strings.
\<close>

definition wf_cell :: "json \<Rightarrow> bool" where
  "wf_cell cell =
     (case cell of
        JDict kvs \<Rightarrow>
          (if map_of kvs ''cell_type'' = Some (JStr ''code'') then
             (case map_of kvs ''source'' of
                None \<Rightarrow> True
              | Some (JStr s) \<Rightarrow> True
              | Some (JList xs) \<Rightarrow> list_all is_jstr xs
              | Some _ \<Rightarrow> False)
           else True)
      | _ \<Rightarrow> False)"

text \<open>
  The joined source, after trimming, is non-empty, does not begin with a magic or shell
  marker, and contains none of the excluded substrings.
\<close>

definition retained :: "string \<Rightarrow> bool" where
  "retained code =
     (let trimmed = strip code in
        trimmed \<noteq> [] \<and>
        \<not> prefix ''%'' trimmed \<and>
        \<not> prefix ''!'' trimmed \<and>
        \<not> sublist ''test_model_locally'' trimmed \<and>
        \<not> sublist ''pip install'' trimmed \<and>
        \<not> sublist ''# Test'' trimmed)"

text \<open>The retained code of the code cells, in order, separated by a blank line.\<close>

definition extractor_spec :: "json list \<Rightarrow> string" where
  "extractor_spec cells =
     join ''\<newline>\<newline>'' (filter retained (map joined_source (filter is_code_cell cells)))"

subsection \<open>Dependency manifest\<close>



subsection \<open>Registry\<close>






subsection \<open>Status Poller\<close>

text \<open>The success marker for a model id, and the two criteria on a fetched log text.\<close>

definition running_marker :: "string \<Rightarrow> string" where
  "running_marker model_id = ''Model '' @ model_id @ '' is RUNNING''"

definition text_running :: "string \<Rightarrow> string \<Rightarrow> bool" where
  "text_running model_id logs = sublist (running_marker model_id) logs"

definition text_failed :: "string \<Rightarrow> string \<Rightarrow> bool" where
  "text_failed model_id logs =
     (sublist (''Model '' @ model_id) logs \<and> sublist ''FAILED'' logs)"



text \<open>The state after a command for the logs that took \<open>d\<close> time units.\<close>

definition after_fetch :: "world \<Rightarrow> completed \<Rightarrow> nat \<Rightarrow> world" where
  "after_fetch w r d = w\<lparr>events := events w @ [Run logs_command r], now := now w + d\<rparr>"

subsection \<open>Structure Builder\<close>

text \<open>The name contains no character in \<open>[a-z0-9]\<close> after lowercasing.\<close>

definition has_no_alnum :: "string \<Rightarrow> bool" where
  "has_no_alnum model_name = list_all (\<lambda>c. \<not> is_lower_alnum c) (lower model_name)"

text \<open>The base submissions directory exists, as do the directories above it.\<close>

definition base_directory_exists :: "filesystem \<Rightarrow> bool" where
  "base_directory_exists f = list_all (\<lambda>q. f q = Some Dir) (tl (prefixes SUBMISSION_BASE))"

section \<open>Example inputs\<close>

text \<open>
  A notebook with a pip-install cell, a cell calling the local test function, and a cell of
  plain model code.
\<close>

definition three_cells :: "json list" where
  "three_cells =
     [JDict [(''cell_type'', JStr ''code''),
             (''source'', JList [JStr ''!pip install btcvol''])],
      JDict [(''cell_type'', JStr ''code''),
             (''source'', JList [JStr ''test_model_locally(MyTracker)''])],
      JDict [(''cell_type'', JStr ''code''),
             (''source'',
              JList [JStr ''class MyTracker(TrackerBase):\<newline>'',
                     JStr ''    def predict(self): return 0.5''])]]"

definition three_cell_notebook :: "(string \<times> json) list" where
  "three_cell_notebook = [(''cells'', JList three_cells), (''nbformat'', JNum 4)]"


text \<open>A registry with two records.\<close>

definition registry_record :: "string \<Rightarrow> string \<Rightarrow> string \<Rightarrow> json" where
  "registry_record model_id submission state =
     JDict [(''id'', JStr model_id),
            (''name'', JStr submission),
            (''submission_id'', JStr submission),
            (''crunch_id'', JStr ''btcvol''),
            (''desired_state'', JStr state),
            (''cruncher_id'', JStr ''test_1'')]"

definition two_models :: "(string \<times> json) list" where
  "two_models =
     [(''models'',
       JList [registry_record ''12315'' ''model-1'' ''RUNNING'',
              registry_record ''12400'' ''old-garch'' ''STOPPED''])]"

text \<open>
  A script with a tracker class, the alternate import form, a use of \<open>np.\<close> and an
  entry-point block.
\<close>

definition tracker_code :: string where
  "tracker_code =
     ''from btcvol import TrackerBase\<newline>'' @
     ''class MyTracker(TrackerBase):\<newline>'' @
     ''    def predict(self): return np.sqrt(0.5)\<newline>'' @
     ''if __name__ == __main__:\<newline>'' @
     ''    print(MyTracker().predict())\<newline>''"

text \<open>
  A filesystem with the reference submission, the registry file, an earlier submission
  \<open>garch\<close>, a model script, and a notebook file whose text is not JSON.
\<close>

definition example_fs :: filesystem where
  "example_fs = map_of
     [([''deployment''], Dir),
      ([''deployment'', ''model-orchestrator-local''], Dir),
      ([''deployment'', ''model-orchestrator-local'', ''config''], Dir),
      (MODELS_CONFIG, File ''models: two records''),
      ([''deployment'', ''model-orchestrator-local'', ''data''], Dir),
      (SUBMISSION_BASE, Dir),
      (SUBMISSION_BASE @ [''model-1''], Dir),
      (BTCVOL_SOURCE, Dir),
      (BTCVOL_SOURCE @ [''tracker.py''], File ''class TrackerBase: pass''),
      (SUBMISSION_BASE @ [''garch''], Dir),
      (SUBMISSION_BASE @ [''garch'', ''main.py''], File ''# previous submission''),
      ([''my_model.py''], File tracker_code),
      ([''broken.ipynb''], File ''{cells: [class Tracker: def predict'')]"

definition example_world :: world where
  "example_world = \<lparr>fs = example_fs, now = 1700000000, events = []\<rparr>"

text \<open>
  An outside in which the registry file parses to the two records, the restart succeeds
  after 2 time units, and the logs show the model running from time 1700000012 on, next to
  a failure of another model.
\<close>

definition example_env :: env where
  "example_env =
     \<lparr>json_load = (\<lambda>text. None),
      yaml_safe_load =
        (\<lambda>text. if text = ''models: two records'' then Some (JDict two_models) else None),
      yaml_dump = (\<lambda>doc. ''models: three records''),
      docker_restart = (\<lambda>t. Completed 2 0 ''dvol-model-orchestrator-local'' []),
      docker_logs =
        (\<lambda>t. if t < 1700000012 then Completed 1 0 ''orchestrator starting'' []
             else Completed 1 0 ''Model 12315 is RUNNING'' ''Model 12400 FAILED'')\<rparr>"

text \<open>The same outside, with a restart command that ends with return code 1.\<close>

definition failing_restart_env :: env where
  "failing_restart_env =
     example_env\<lparr>docker_restart := (\<lambda>t. Completed 1 1 [] ''Error: No such container'')\<rparr>"


text \<open>The three command lines used below.\<close>

definition script_args :: args where
  "script_args = \<lparr>model_file = [''my_model.py''], name = Some ''Garch'', no_deploy = False\<rparr>"

definition notebook_args :: args where
  "notebook_args = \<lparr>model_file = [''broken.ipynb''], name = Some ''Garch'', no_deploy = False\<rparr>"

definition punctuation_args :: args where
  "punctuation_args = \<lparr>model_file = [''my_model.py''], name = Some ''!!!'', no_deploy = True\<rparr>"

section \<open>Slug generation\<close>

lemma hyphen_not_alnum: "is_lower_alnum c \<Longrightarrow> \<not> is_hyphen c"
  by (auto simp: is_lower_alnum_def is_hyphen_def ord_def)

lemma dropWhile_sub_non_slug:
  "dropWhile is_hyphen (sub_non_slug cs) = sub_non_slug (dropWhile (\<lambda>c. \<not> is_lower_alnum c) cs)"
proof -
  have "is_hyphen \<circ> (\<lambda>c. if is_lower_alnum c \<or> is_hyphen c then c else CHR ''-'')
      = (\<lambda>c. \<not> is_lower_alnum c)"
    using hyphen_not_alnum by (auto simp: fun_eq_iff is_hyphen_def)
  then show ?thesis
    by (simp add: sub_non_slug_def dropWhile_map)
qed

lemma sub_hyphen_runs_sub_non_slug: "sub_hyphen_runs (sub_non_slug s) = slug_collapse s"
proof (induction s rule: slug_collapse.induct)
  case 1
  show ?case by (simp add: sub_non_slug_def)
next
  case (2 c cs)
  show ?case
  proof (cases "is_lower_alnum c")
    case True
    then have "\<not> is_hyphen c" by (rule hyphen_not_alnum)
    with True 2 show ?thesis by (simp add: sub_non_slug_def)
  next
    case False
    have "sub_non_slug (c # cs) = CHR ''-'' # sub_non_slug cs"
      using False by (auto simp: sub_non_slug_def is_hyphen_def)
    then show ?thesis
      using False 2 by (simp add: dropWhile_sub_non_slug is_hyphen_def)
  qed
qed

text \<open>
  Claim C8, as the code has it. For every non-empty name given with \<open>--name\<close>, the slug is
  the name lowercased, with every run of characters outside \<open>[a-z0-9]\<close> collapsed to a
  single hyphen and the hyphens at both ends trimmed; for \<open>My Cool Model!!\<close> it is
  \<open>my-cool-model\<close>. (The empty name takes the timestamp branch.)
\<close>

theorem slug_of_nonempty_name:
  "(model_name \<noteq> [] \<longrightarrow>
      generate_submission_name (Some model_name) t = slug_spec model_name) \<and>
   generate_submission_name (Some ''My Cool Model!!'') t = ''my-cool-model''"
proof
  show "model_name \<noteq> [] \<longrightarrow>
      generate_submission_name (Some model_name) t = slug_spec model_name"
    by (simp add: generate_submission_name_def slug_spec_def sub_hyphen_runs_sub_non_slug)
next
  have "slug_spec ''My Cool Model!!'' = ''my-cool-model''"
    by code_simp
  then show "generate_submission_name (Some ''My Cool Model!!'') t = ''my-cool-model''"
    by (simp add: generate_submission_name_def slug_spec_def sub_hyphen_runs_sub_non_slug)
qed

theorem slug_of_nonempty_name_witness:
  "''GARCH v2 (final)'' \<noteq> [] \<and>
   generate_submission_name (Some ''GARCH v2 (final)'') 1700000000 = slug_spec ''GARCH v2 (final)'' \<and>
   slug_spec ''GARCH v2 (final)'' = ''garch-v2-final''"
proof -
  have ne: "''GARCH v2 (final)'' \<noteq> []"
    by simp
  have val: "slug_spec ''GARCH v2 (final)'' = ''garch-v2-final''"
    by code_simp
  from slug_of_nonempty_name [of "''GARCH v2 (final)''" 1700000000] ne val
  show ?thesis by blast
qed

text \<open>
  The claim as written, for every name, fails at the empty name: the slug of the empty name
  in the claim's words is empty, and the code returns a timestamp name.
\<close>

theorem slug_of_empty_name_counterexample:
  "generate_submission_name (Some []) 1700000000 = ''submission-1700000000'' \<and>
   slug_spec [] = [] \<and>
   generate_submission_name (Some []) 1700000000 \<noteq> slug_spec []"
  by (simp add: generate_submission_name_def str_nat.simps digit_char_def slug_spec_def
      strip_chars_def lstrip_def rstrip_def lower_def)

section \<open>Extractor\<close>

lemma sublist_dropWhile:
  assumes "sublist (a # as) s" and "\<not> P a"
  shows "sublist (a # as) (dropWhile P s)"
  using assms
proof (induction s)
  case Nil
  then show ?case by simp
next
  case (Cons c cs)
  show ?case
  proof (cases "P c")
    case True
    with Cons.prems have "a \<noteq> c" by auto
    with Cons.prems have "sublist (a # as) cs" by (simp add: sublist_Cons_right)
    with Cons.IH Cons.prems True show ?thesis by simp
  next
    case False
    with Cons.prems show ?thesis by simp
  qed
qed

text \<open>
  A substring that neither begins nor ends with a stripped character occurs in the
  stripped text exactly when it occurs in the text.
\<close>

lemma sublist_strip_chars:
  assumes "sub \<noteq> []" and "\<not> P (hd sub)" and "\<not> P (last sub)"
  shows "sublist sub (strip_chars P s) \<longleftrightarrow> sublist sub s"
proof
  assume "sublist sub (strip_chars P s)"
  moreover have "sublist (strip_chars P s) s"
  proof -
    have "sublist (dropWhile P (rev s)) (rev s)" by simp
    then have "sublist (rev (dropWhile P (rev s))) s"
      by (metis rev_rev_ident sublist_rev)
    moreover have "sublist (dropWhile P (rev (dropWhile P (rev s)))) (rev (dropWhile P (rev s)))"
      by simp
    ultimately show ?thesis
      unfolding strip_chars_def lstrip_def rstrip_def
      using sublist_order.order_trans by blast
  qed
  ultimately show "sublist sub s"
    using sublist_order.order_trans by blast
next
  assume s: "sublist sub s"
  obtain a as where sub: "sub = a # as" using assms(1) by (cases sub) auto
  obtain b bs where rsub: "rev sub = b # bs" using assms(1) by (cases "rev sub") auto
  have b: "b = last sub" using rsub assms(1)
    by (metis hd_rev list.sel(1))
  from s have "sublist (rev sub) (rev s)" by simp
  then have "sublist (b # bs) (dropWhile P (rev s))"
    using sublist_dropWhile[of b bs "rev s" P] rsub b assms(3) by simp
  then have "sublist (rev (b # bs)) (rev (dropWhile P (rev s)))"
    by (simp only: sublist_rev)
  then have "sublist (a # as) (rev (dropWhile P (rev s)))"
    using rsub sub by (metis rev_rev_ident)
  then have "sublist (a # as) (dropWhile P (rev (dropWhile P (rev s))))"
    using sublist_dropWhile[of a as _ P] assms(2) sub by simp
  then show "sublist sub (strip_chars P s)"
    by (simp add: strip_chars_def lstrip_def rstrip_def sub)
qed

lemma skipped_iff_not_retained: "skipped code \<longleftrightarrow> \<not> retained code"
proof -
  have 1: "sublist ''test_model_locally'' (strip code) \<longleftrightarrow> sublist ''test_model_locally'' code"
    unfolding strip_def by (rule sublist_strip_chars) (simp_all add: isspace_def ord_def)
  have 2: "sublist ''pip install'' (strip code) \<longleftrightarrow> sublist ''pip install'' code"
    unfolding strip_def by (rule sublist_strip_chars) (simp_all add: isspace_def ord_def)
  have 3: "sublist ''# Test'' (strip code) \<longleftrightarrow> sublist ''# Test'' code"
    unfolding strip_def by (rule sublist_strip_chars) (simp_all add: isspace_def ord_def)
  show ?thesis
    unfolding skipped_def retained_def Let_def 1 2 3 by blast
qed

lemma join_source_strs: "list_all is_jstr xs \<Longrightarrow> join_source xs = Inr (concat (map the_str xs))"
proof (induction xs)
  case Nil
  show ?case by simp
next
  case (Cons x xs)
  then show ?case by (cases x) simp_all
qed

lemma cell_code_wf:
  assumes "wf_cell cell" and "is_code_cell cell"
  shows "cell_code cell = Inr (joined_source cell)"
  using assms
  by (auto simp: wf_cell_def is_code_cell_def cell_code_def joined_source_def py_get_def
      join_source_strs split: json.splits option.splits if_splits)

lemma cell_type_wf:
  assumes "wf_cell cell"
  shows "\<exists>ty. py_get cell ''cell_type'' JNull = Inr ty \<and> (ty = JStr ''code'' \<longleftrightarrow> is_code_cell cell)"
  using assms
  by (auto simp: wf_cell_def is_code_cell_def py_get_def split: json.splits option.splits)

lemma extract_cells_spec:
  assumes "list_all wf_cell cells"
  shows "extract_cells cells acc =
    Inr (acc @ filter retained (map joined_source (filter is_code_cell cells)))"
  using assms
proof (induction cells arbitrary: acc)
  case Nil
  show ?case by simp
next
  case (Cons cell cells)
  then have wf: "wf_cell cell" and rest: "list_all wf_cell cells" by simp_all
  obtain ty where ty: "py_get cell ''cell_type'' JNull = Inr ty"
    and code: "ty = JStr ''code'' \<longleftrightarrow> is_code_cell cell"
    using cell_type_wf[OF wf] by blast
  show ?case
  proof (cases "is_code_cell cell")
    case True
    then show ?thesis
      using ty code cell_code_wf[OF wf True] Cons.IH[OF rest]
      by (simp add: skipped_iff_not_retained)
  next
    case False
    then show ?thesis
      using ty code Cons.IH[OF rest] by simp
  qed
qed

text \<open>
  Claim C6. For every notebook whose cell list holds well-formed cells, the Extractor
  returns the code of exactly the code-type cells whose joined source, after trimming, is
  non-empty, does not begin with \<open>%\<close> or \<open>!\<close>, and contains none of
  \<open>test_model_locally\<close>, \<open>pip install\<close> and \<open># Test\<close>; the code of the retained cells
  is concatenated in the original order, separated by a blank line.
\<close>

theorem extractor_keeps_retained_code_cells:
  assumes "map_of nb ''cells'' = Some (JList cells)" and "list_all wf_cell cells"
  shows "extract_model_code (Some (JDict nb)) = Inr (extractor_spec cells)"
  using assms extract_cells_spec[OF assms(2), of "[]"]
  by (simp add: extract_model_code_def py_get_def py_iter_def extractor_spec_def)

theorem extractor_keeps_retained_code_cells_witness:
  "map_of three_cell_notebook ''cells'' = Some (JList three_cells) \<and>
   list_all wf_cell three_cells \<and>
   extract_model_code (Some (JDict three_cell_notebook)) = Inr (extractor_spec three_cells) \<and>
   extractor_spec three_cells =
     ''class MyTracker(TrackerBase):\<newline>    def predict(self): return 0.5''"
proof -
  have cells: "map_of three_cell_notebook ''cells'' = Some (JList three_cells)"
    by (simp add: three_cell_notebook_def)
  have wf: "list_all wf_cell three_cells"
    by code_simp
  have val: "extractor_spec three_cells =
      ''class MyTracker(TrackerBase):\<newline>    def predict(self): return 0.5''"
    by code_simp
  from extractor_keeps_retained_code_cells [OF cells wf] cells wf val
  show ?thesis by blast
qed

section \<open>Dependency manifest\<close>







section \<open>Config Updater\<close>












section \<open>Status Poller\<close>



lemma poll_running:
  "int (now w) - int start_time < max_wait \<Longrightarrow>
   docker_logs e (now w) = Completed d rc out err \<Longrightarrow>
   text_running model_id (out @ err) \<Longrightarrow>
   poll e model_id max_wait start_time w = (''RUNNING'', after_fetch w (Completed d rc out err) d)"
  by (simp add: poll.simps[of e model_id max_wait start_time w] after_fetch_def
      text_running_def running_marker_def)

lemma poll_failed:
  "int (now w) - int start_time < max_wait \<Longrightarrow>
   docker_logs e (now w) = Completed d rc out err \<Longrightarrow>
   \<not> text_running model_id (out @ err) \<Longrightarrow>
   text_failed model_id (out @ err) \<Longrightarrow>
   poll e model_id max_wait start_time w = (''FAILED'', after_fetch w (Completed d rc out err) d)"
  by (simp add: poll.simps[of e model_id max_wait start_time w] after_fetch_def
      text_running_def text_failed_def running_marker_def)









text \<open>
  Claim C10. When the fetched text contains \<open>Model <id> is RUNNING\<close> the result is
  \<open>RUNNING\<close>, whatever else the text contains; when it does not, and \<open>Model <id>\<close>
  and \<open>FAILED\<close> both occur somewhere in the text, the result is \<open>FAILED\<close>.
\<close>

theorem running_marker_takes_precedence:
  assumes "0 < max_wait" and "docker_logs e (now w) = Completed d rc out err"
  shows "(sublist (''Model '' @ model_id @ '' is RUNNING'') (out @ err) \<longrightarrow>
           fst (check_deployment_status e model_id max_wait w) = ''RUNNING'') \<and>
         (\<not> sublist (''Model '' @ model_id @ '' is RUNNING'') (out @ err) \<and>
          sublist (''Model '' @ model_id) (out @ err) \<and> sublist ''FAILED'' (out @ err) \<longrightarrow>
           fst (check_deployment_status e model_id max_wait w) = ''FAILED'')"
proof -
  have c: "int (now w) - int (now w) < max_wait" using assms(1) by simp
  show ?thesis
    using poll_running[OF c assms(2), of model_id] poll_failed[OF c assms(2), of model_id]
    by (auto simp: check_deployment_status_def text_running_def text_failed_def running_marker_def)
qed

section \<open>Deployment Trigger\<close>

text \<open>
  Claim C4, as the code has it. The Deployment Trigger runs the restart command for the
  named container once. When the command ends with return code 0 it then waits 5 time
  units and reports success; when the command ends with another return code it reports
  failure and does not wait.
\<close>

theorem trigger_waits_only_after_success:
  assumes "docker_restart e (now w) = Completed d rc out err"
  shows "trigger_deployment e w =
     (Inr (rc = 0),
      w\<lparr>events := events w @ [Run restart_command (Completed d rc out err)] @
                    (if rc = 0 then [Sleep 5] else []),
        now := now w + d + (if rc = 0 then 5 else 0)\<rparr>)"
  using assms by (simp add: trigger_deployment_def sleep_def)

section \<open>Exit code\<close>

lemma poll_status:
  "fst (poll e model_id max_wait start_time w) \<in> {''RUNNING'', ''FAILED'', ''UNKNOWN''}"
proof (induction e model_id max_wait start_time w rule: poll.induct)
  case (1 e model_id max_wait start_time w)
  show ?case
    apply (subst poll.simps)
    using 1
    apply (auto simp: Let_def split: completed.splits)
    done
qed

text \<open>
  Claim C2. For every invocation with parsed arguments, the exit code is 0 exactly when
  the model file is valid, the submission structure is created, the registry is updated,
  and either \<open>--no-deploy\<close> is given or the deployment is triggered and the Status
  Poller returns \<open>RUNNING\<close>; in every other case, whether a validation failure, an
  exception, a registry failure, a failed restart or a status \<open>FAILED\<close> or
  \<open>UNKNOWN\<close>, the exit code is 1.
\<close>

theorem exit_code_zero_iff_success:
  "(exit_code e a w = 0 \<longleftrightarrow>
      (\<exists>msg dir w1 w2.
         validate_model_file (fs w) (model_file a) = Inr (True, msg) \<and>
         create_submission_structure e (model_file a)
           (generate_submission_name (name a) (now w)) w = (Inr dir, w1) \<and>
         update_models_config e (generate_submission_name (name a) (now w))
           (generate_model_id (now w)) w1 = (True, w2) \<and>
         (no_deploy a \<or>
          (\<exists>w3. trigger_deployment e w2 = (Inr True, w3) \<and>
                fst (check_deployment_status e (generate_model_id (now w)) 60 w3) = ''RUNNING'')))) \<and>
   (exit_code e a w = 0 \<or> exit_code e a w = 1)"
  unfolding exit_code_def main_def main_try_def Let_def
  by (auto split: sum.splits prod.splits if_splits)

section \<open>Structure Builder\<close>

lemma sub_non_slug_all_hyphens:
  assumes "list_all (\<lambda>c. \<not> is_lower_alnum c) s"
  shows "list_all is_hyphen (sub_non_slug s)"
  using assms by (induction s) (auto simp: sub_non_slug_def is_hyphen_def)

lemma dropWhile_all: "list_all P s \<Longrightarrow> dropWhile P s = []"
  by (induction s) auto

lemma strip_hyphen_runs_all_hyphens:
  assumes "list_all is_hyphen s"
  shows "strip_chars is_hyphen (sub_hyphen_runs s) = []"
proof (cases s)
  case Nil
  then show ?thesis by (simp add: strip_chars_def lstrip_def rstrip_def)
next
  case (Cons c cs)
  with assms have "is_hyphen c" and "list_all is_hyphen cs" by simp_all
  then have "sub_hyphen_runs s = ''-''"
    using Cons by (simp add: dropWhile_all)
  then show ?thesis
    by (simp add: strip_chars_def lstrip_def rstrip_def is_hyphen_def)
qed

lemma slug_without_alnum:
  assumes "model_name \<noteq> []" and "list_all (\<lambda>c. \<not> is_lower_alnum c) (lower model_name)"
  shows "generate_submission_name (Some model_name) t = []"
  using assms strip_hyphen_runs_all_hyphens[OF sub_non_slug_all_hyphens[OF assms(2)]]
  by (simp add: generate_submission_name_def)

text \<open>Creating a directory and its missing ancestors.\<close>

lemma mkdirs_exists: "mkdirs f seen rest = Inr f' \<Longrightarrow> f p = Some Dir \<Longrightarrow> f' p = Some Dir"
proof (induction rest arbitrary: f seen)
  case Nil
  then show ?case by simp
next
  case (Cons c rest)
  then show ?case
    by (auto split: option.splits node.splits if_splits)
qed




lemma base_prefixes:
  "tl (prefixes SUBMISSION_BASE) =
     [[''deployment''],
      [''deployment'', ''model-orchestrator-local''],
      [''deployment'', ''model-orchestrator-local'', ''data''],
      SUBMISSION_BASE]"
  by (simp add: SUBMISSION_BASE_def)

text \<open>
  Claim C9, as the code has it. For every non-empty name given with \<open>--name\<close> that has
  no character in \<open>[a-z0-9]\<close> after lowercasing, the slug is empty and the submission
  directory is the base submissions directory itself. When that directory and the
  directories above it exist, the Structure Builder deletes it with everything below it,
  recreates it empty, and then stops because the reference subtree, which was below it,
  is gone. (The empty name takes the timestamp branch.)
\<close>

theorem name_without_alnum_targets_base_directory:
  assumes "model_name \<noteq> []"
    and "has_no_alnum model_name"
  shows "generate_submission_name (Some model_name) t = [] \<and>
         path_join SUBMISSION_BASE (generate_submission_name (Some model_name) t) =
           SUBMISSION_BASE \<and>
         (base_directory_exists (fs w) \<longrightarrow>
            (\<exists>w'. create_submission_structure e model_path
                     (generate_submission_name (Some model_name) t) w =
                     (Inl FileNotFoundError, w') \<and>
                  fs w' SUBMISSION_BASE = Some Dir \<and>
                  (\<forall>p. strict_prefix SUBMISSION_BASE p \<longrightarrow> fs w' p = None) \<and>
                  (\<forall>p. \<not> prefix SUBMISSION_BASE p \<longrightarrow> fs w' p = fs w p)))"
proof -
  have slug: "generate_submission_name (Some model_name) t = []"
    using assms by (simp add: slug_without_alnum has_no_alnum_def)
  have dir: "path_join SUBMISSION_BASE [] = SUBMISSION_BASE"
    by (simp add: path_join_def)
  have del: "\<exists>w'. create_submission_structure e model_path [] w = (Inl FileNotFoundError, w') \<and>
                  fs w' SUBMISSION_BASE = Some Dir \<and>
                  (\<forall>p. strict_prefix SUBMISSION_BASE p \<longrightarrow> fs w' p = None) \<and>
                  (\<forall>p. \<not> prefix SUBMISSION_BASE p \<longrightarrow> fs w' p = fs w p)"
    if dirs: "base_directory_exists (fs w)"
  proof -
    let ?f1 = "\<lambda>p. if prefix SUBMISSION_BASE p then None else fs w p"
    let ?f2 = "?f1(SUBMISSION_BASE \<mapsto> Dir)"
    have d1: "fs w [''deployment''] = Some Dir"
      and d2: "fs w [''deployment'', ''model-orchestrator-local''] = Some Dir"
      and d3: "fs w [''deployment'', ''model-orchestrator-local'', ''data''] = Some Dir"
      and d4: "fs w SUBMISSION_BASE = Some Dir"
      using dirs unfolding base_directory_exists_def base_prefixes by simp_all
    have rm: "rmtree (fs w) SUBMISSION_BASE = Inr ?f1"
      using d4 by (simp add: rmtree_def)
    have mk: "mkdir_parents ?f1 SUBMISSION_BASE = Inr ?f2"
      using d1 d2 d3 by (simp add: mkdir_parents_def SUBMISSION_BASE_def)
    have gone: "\<not> path_exists ?f2 BTCVOL_SOURCE"
      by (simp add: path_exists_def BTCVOL_SOURCE_def)
    have "create_submission_structure e model_path [] w =
        (Inl FileNotFoundError, w\<lparr>fs := ?f2\<rparr>)"
      using d4 rm mk gone
      by (simp add: create_submission_structure_def dir path_exists_def)
    moreover have "\<forall>p. strict_prefix SUBMISSION_BASE p \<longrightarrow> ?f2 p = None"
      by (auto simp: strict_prefix_def)
    ultimately show ?thesis by simp
  qed
  from slug dir del show ?thesis by simp
qed



section \<open>The examples, evaluated\<close>

lemma garch_slug: "generate_submission_name (Some ''Garch'') t = ''garch''"
proof -
  have "strip_chars is_hyphen (sub_hyphen_runs (sub_non_slug (lower ''Garch''))) = ''garch''"
    by code_simp
  then show ?thesis by (simp add: generate_submission_name_def)
qed

lemma example_model_id: "generate_model_id 1700000000 = ''12315''"
  by (simp add: generate_model_id_def str_nat.simps digit_char_def)

lemma script_valid: "validate_model_file example_fs [''my_model.py''] = Inr (True, ''Valid'')"
  by code_simp

lemma notebook_valid: "validate_model_file example_fs [''broken.ipynb''] = Inr (True, ''Valid'')"
  by code_simp

lemma script_prepared:
  "prepare_code tracker_code =
     ''import numpy as np\<newline>\<newline>\<newline>from btcvol.tracker import TrackerBase\<newline>class MyTracker(TrackerBase):\<newline>    def predict(self): return np.sqrt(0.5)''"
  by code_simp

lemma script_requirements:
  "requirements_text ''import numpy as np\<newline>\<newline>\<newline>from btcvol.tracker import TrackerBase\<newline>class MyTracker(TrackerBase):\<newline>    def predict(self): return np.sqrt(0.5)'' = ''numpy>=1.24.0\<newline>''"
  by code_simp

lemma two_models_updated:
  "update_models_doc ''garch'' ''12315'' (JDict two_models) =
     Inr (JDict [(''models'',
            JList [JDict [(''id'', JStr ''12315''),
                          (''name'', JStr ''model-1''),
                          (''submission_id'', JStr ''garch''),
                          (''crunch_id'', JStr ''btcvol''),
                          (''desired_state'', JStr ''RUNNING''),
                          (''cruncher_id'', JStr ''test_1'')],
                   registry_record ''12400'' ''old-garch'' ''STOPPED''])])"
  by code_simp

lemmas example_defs = create_submission_structure_def Let_def path_join_def path_exists_def
  rmtree_def mkdir_parents_def copytree_def load_code_def read_text_def write_text_def
  path_suffix_def name_suffix_def extract_model_code_def example_env_def example_fs_def
  example_world_def SUBMISSION_BASE_def BTCVOL_SOURCE_def MODELS_CONFIG_def

lemma notebook_create_fst:
  "fst (create_submission_structure example_env [''broken.ipynb''] ''garch'' example_world) =
     Inl JSONDecodeError"
  by (simp add: example_defs)



lemma notebook_main:
  "main example_env notebook_args example_world =
     (Inr 1, snd (create_submission_structure example_env [''broken.ipynb''] ''garch''
                    example_world))"
proof -
  have v: "validate_model_file (fs example_world) [''broken.ipynb''] = Inr (True, ''Valid'')"
    using notebook_valid by (simp add: example_world_def)
  have n: "generate_submission_name (name notebook_args) (now example_world) = ''garch''"
    using garch_slug by (simp add: notebook_args_def)
  have i: "generate_model_id (now example_world) = ''12315''"
    using example_model_id by (simp add: example_world_def)
  have m: "model_file notebook_args = [''broken.ipynb'']"
    by (simp add: notebook_args_def)
  show ?thesis
    using notebook_create_fst
    by (simp add: main_def main_try_def v n i m Let_def split_beta)
qed



section \<open>Deployment examples\<close>

theorem trigger_waits_only_after_success_witness:
  "docker_restart example_env (now example_world) =
     Completed 2 0 ''dvol-model-orchestrator-local'' [] \<and>
   trigger_deployment example_env example_world =
     (Inr True,
      \<lparr>fs = example_fs, now = 1700000007,
       events = [Run restart_command (Completed 2 0 ''dvol-model-orchestrator-local'' []),
                 Sleep 5]\<rparr>)"
proof -
  have h: "docker_restart example_env (now example_world) =
      Completed 2 0 ''dvol-model-orchestrator-local'' []"
    by (simp add: example_env_def)
  from trigger_waits_only_after_success [OF h] h show ?thesis
    by (simp add: example_world_def)
qed

text \<open>
  The claim as written fails on the example with the failing restart command: the result
  is failure, and the only event is the command; no wait follows it.
\<close>

theorem trigger_no_wait_on_failure_counterexample:
  "trigger_deployment failing_restart_env example_world =
     (Inr False,
      \<lparr>fs = example_fs, now = 1700000001,
       events = [Run restart_command (Completed 1 1 [] ''Error: No such container'')]\<rparr>)"
  by (simp add: trigger_deployment_def failing_restart_env_def example_env_def example_world_def)





theorem running_marker_takes_precedence_witness:
  "(0::int) < 60 \<and>
   docker_logs example_env (now (example_world\<lparr>now := 1700000012\<rparr>)) =
     Completed 1 0 ''Model 12315 is RUNNING'' ''Model 12400 FAILED'' \<and>
   sublist ''Model 12315 is RUNNING'' (''Model 12315 is RUNNING'' @ ''Model 12400 FAILED'') \<and>
   sublist ''FAILED'' (''Model 12315 is RUNNING'' @ ''Model 12400 FAILED'') \<and>
   fst (check_deployment_status example_env ''12315'' 60 (example_world\<lparr>now := 1700000012\<rparr>)) =
     ''RUNNING'' \<and>
   fst (check_deployment_status example_env ''123'' 60 (example_world\<lparr>now := 1700000012\<rparr>)) =
     ''FAILED''"
proof -
  have pos: "(0::int) < 60" by simp
  have logs: "docker_logs example_env (now (example_world\<lparr>now := 1700000012\<rparr>)) =
     Completed 1 0 ''Model 12315 is RUNNING'' ''Model 12400 FAILED''"
    by (simp add: example_env_def)
  have r: "sublist (''Model '' @ ''12315'' @ '' is RUNNING'')
      (''Model 12315 is RUNNING'' @ ''Model 12400 FAILED'')"
    by code_simp
  have f: "sublist ''FAILED'' (''Model 12315 is RUNNING'' @ ''Model 12400 FAILED'')"
    by code_simp
  have nr: "\<not> sublist (''Model '' @ ''123'' @ '' is RUNNING'')
      (''Model 12315 is RUNNING'' @ ''Model 12400 FAILED'')"
    by code_simp
  have m: "sublist (''Model '' @ ''123'') (''Model 12315 is RUNNING'' @ ''Model 12400 FAILED'')"
    by code_simp
  from running_marker_takes_precedence [OF pos logs, of "''12315''"] r
  have a: "fst (check_deployment_status example_env ''12315'' 60
      (example_world\<lparr>now := 1700000012\<rparr>)) = ''RUNNING''"
    by blast
  from running_marker_takes_precedence [OF pos logs, of "''123''"] nr m f
  have b: "fst (check_deployment_status example_env ''123'' 60
      (example_world\<lparr>now := 1700000012\<rparr>)) = ''FAILED''"
    by blast
  from pos logs r f a b show ?thesis by simp
qed

section \<open>A run that succeeds\<close>

lemma script_create:
  "fst (create_submission_structure example_env [''my_model.py''] ''garch'' example_world) =
     Inr (SUBMISSION_BASE @ [''garch''])"
  "now (snd (create_submission_structure example_env [''my_model.py''] ''garch'' example_world)) =
     1700000000"
  "fs (snd (create_submission_structure example_env [''my_model.py''] ''garch'' example_world))
     MODELS_CONFIG = Some (File ''models: two records'')"
  "fs (snd (create_submission_structure example_env [''my_model.py''] ''garch'' example_world))
     (butlast MODELS_CONFIG) = Some Dir"
  "fs (snd (create_submission_structure example_env [''my_model.py''] ''garch'' example_world))
     (SUBMISSION_BASE @ [''garch'', ''requirements.txt'']) = Some (File ''numpy>=1.24.0\<newline>'')"
  by (simp_all add: example_defs script_prepared script_requirements)

lemma example_yaml:
  "yaml_safe_load example_env ''models: two records'' = Some (JDict two_models)"
  "yaml_dump example_env doc = ''models: three records''"
  by (simp_all add: example_env_def)

lemma script_config:
  "fst (update_models_config example_env ''garch'' ''12315''
     (snd (create_submission_structure example_env [''my_model.py''] ''garch'' example_world)))"
  "now (snd (update_models_config example_env ''garch'' ''12315''
     (snd (create_submission_structure example_env [''my_model.py''] ''garch'' example_world)))) =
   1700000000"
  by (simp_all add: update_models_config_def read_text_def write_text_def script_create
      two_models_updated example_yaml)

lemma example_trigger:
  "fst (trigger_deployment example_env w) = Inr True"
  "now (snd (trigger_deployment example_env w)) = now w + 7"
  by (simp_all add: trigger_deployment_def example_env_def sleep_def)

lemma example_status:
  "now w = 1700000007 \<Longrightarrow> fst (check_deployment_status example_env ''12315'' 60 w) = ''RUNNING''"
  by (simp add: check_deployment_status_def poll.simps example_env_def sleep_def sublist_code
      Let_def)

theorem exit_code_zero_iff_success_witness:
  "validate_model_file (fs example_world) (model_file script_args) = Inr (True, ''Valid'') \<and>
   generate_submission_name (name script_args) (now example_world) = ''garch'' \<and>
   generate_model_id (now example_world) = ''12315'' \<and>
   exit_code example_env script_args example_world = 0 \<and>
   exit_code example_env notebook_args example_world = 1"
proof -
  let ?c = "create_submission_structure example_env [''my_model.py''] ''garch'' example_world"
  let ?u = "update_models_config example_env ''garch'' ''12315'' (snd ?c)"
  let ?t = "trigger_deployment example_env (snd ?u)"
  have v: "validate_model_file (fs example_world) (model_file script_args) = Inr (True, ''Valid'')"
    using script_valid by (simp add: example_world_def script_args_def)
  have n: "generate_submission_name (name script_args) (now example_world) = ''garch''"
    using garch_slug by (simp add: script_args_def)
  have i: "generate_model_id (now example_world) = ''12315''"
    using example_model_id by (simp add: example_world_def)
  have m: "model_file script_args = [''my_model.py'']"
    by (simp add: script_args_def)
  have c: "?c = (Inr (SUBMISSION_BASE @ [''garch'']), snd ?c)"
    using script_create(1) by (simp add: prod_eq_iff)
  have u: "?u = (True, snd ?u)"
    using script_config(1) by (simp add: prod_eq_iff)
  have t: "?t = (Inr True, snd ?t)"
    using example_trigger(1) by (simp add: prod_eq_iff)
  have "now (snd ?t) = 1700000007"
    using example_trigger(2) script_config(2) by simp
  then have s: "fst (check_deployment_status example_env ''12315'' 60 (snd ?t)) = ''RUNNING''"
    by (rule example_status)
  have d: "trigger_deployment example_env (snd ?u) = (Inr True, snd ?t) \<and>
      fst (check_deployment_status example_env ''12315'' 60 (snd ?t)) = ''RUNNING''"
    using t s by simp
  have run: "\<exists>msg dir w1 w2.
         validate_model_file (fs example_world) (model_file script_args) = Inr (True, msg) \<and>
         create_submission_structure example_env (model_file script_args)
           (generate_submission_name (name script_args) (now example_world)) example_world =
           (Inr dir, w1) \<and>
         update_models_config example_env
           (generate_submission_name (name script_args) (now example_world))
           (generate_model_id (now example_world)) w1 = (True, w2) \<and>
         (no_deploy script_args \<or>
          (\<exists>w3. trigger_deployment example_env w2 = (Inr True, w3) \<and>
                fst (check_deployment_status example_env (generate_model_id (now example_world))
                       60 w3) = ''RUNNING''))"
    unfolding n i m
    apply (rule exI [of _ "''Valid''"])
    apply (rule exI [of _ "SUBMISSION_BASE @ [''garch'']"])
    apply (rule exI [of _ "snd ?c"])
    apply (rule exI [of _ "snd ?u"])
    apply (intro conjI disjI2)
    subgoal using v m by simp
    subgoal using c by simp
    subgoal using u by simp
    subgoal using d by blast
    done
  have ok: "exit_code example_env script_args example_world = 0"
    by (rule iffD2 [OF conjunct1 [OF exit_code_zero_iff_success]]) (rule run)
  have "exit_code example_env notebook_args example_world = 1"
    by (simp add: exit_code_def notebook_main)
  with v n i ok show ?thesis by simp
qed

section \<open>A name of punctuation\<close>

theorem name_without_alnum_targets_base_directory_witness:
  "''!!!'' \<noteq> [] \<and>
   has_no_alnum ''!!!'' \<and>
   base_directory_exists (fs example_world) \<and>
   generate_submission_name (Some ''!!!'') 1700000000 = [] \<and>
   fst (create_submission_structure example_env [''my_model.py'']
          (generate_submission_name (Some ''!!!'') 1700000000) example_world) =
     Inl FileNotFoundError \<and>
   fs example_world (SUBMISSION_BASE @ [''garch'', ''main.py'']) =
     Some (File ''# previous submission'') \<and>
   fs (snd (create_submission_structure example_env [''my_model.py'']
          (generate_submission_name (Some ''!!!'') 1700000000) example_world))
     (SUBMISSION_BASE @ [''garch'', ''main.py'']) = None \<and>
   fs (snd (create_submission_structure example_env [''my_model.py'']
          (generate_submission_name (Some ''!!!'') 1700000000) example_world))
     SUBMISSION_BASE = Some Dir"
proof -
  let ?c = "create_submission_structure example_env [''my_model.py'']
          (generate_submission_name (Some ''!!!'') 1700000000) example_world"
  have ne: "''!!!'' \<noteq> []" by simp
  have punct: "has_no_alnum ''!!!''"
    by code_simp
  have dirs: "base_directory_exists (fs example_world)"
    by (simp add: base_directory_exists_def example_world_def example_fs_def SUBMISSION_BASE_def
        BTCVOL_SOURCE_def MODELS_CONFIG_def)
  have old: "fs example_world (SUBMISSION_BASE @ [''garch'', ''main.py'']) =
     Some (File ''# previous submission'')"
    by (simp add: example_world_def example_fs_def SUBMISSION_BASE_def BTCVOL_SOURCE_def
        MODELS_CONFIG_def)
  from name_without_alnum_targets_base_directory
    [OF ne punct, of 1700000000 example_world example_env "[''my_model.py'']"] dirs
  obtain w' where slug: "generate_submission_name (Some ''!!!'') 1700000000 = []"
    and c: "?c = (Inl FileNotFoundError, w')"
    and base: "fs w' SUBMISSION_BASE = Some Dir"
    and gone: "\<forall>p. strict_prefix SUBMISSION_BASE p \<longrightarrow> fs w' p = None"
    by blast
  have "strict_prefix SUBMISSION_BASE (SUBMISSION_BASE @ [''garch'', ''main.py''])"
    by (simp add: strict_prefix_def)
  with gone have "fs w' (SUBMISSION_BASE @ [''garch'', ''main.py'']) = None"
    by blast
  with ne punct dirs slug c base old show ?thesis by simp
qed

text \<open>
  The claim as written, for every name without a character in \<open>[a-z0-9]\<close>, fails at the
  empty name: the slug is not empty, and the submission directory is below the base
  directory, not the base directory itself.
\<close>

theorem empty_name_not_base_directory_counterexample:
  "has_no_alnum [] \<and>
   generate_submission_name (Some []) 1700000000 \<noteq> [] \<and>
   path_join SUBMISSION_BASE (generate_submission_name (Some []) 1700000000) =
     SUBMISSION_BASE @ [''submission-1700000000''] \<and>
   path_join SUBMISSION_BASE (generate_submission_name (Some []) 1700000000) \<noteq> SUBMISSION_BASE"
  by (simp add: generate_submission_name_def str_nat.simps digit_char_def lower_def path_join_def
      has_no_alnum_def)

end
